theory Spec2Isabelle
  imports Main
begin

section \<open>Python values, exceptions and strings\<close>

text \<open>
  The backup code is dynamically typed: the attributes of \<open>db_config\<close> may hold any
  object.  The embedding covers the built-in values \<open>None\<close>, integers, strings and
  lists.  A Python \<open>str\<close> is a sequence of code points; a \<open>string\<close> here is the list
  of its code points, each below 256.
\<close>

datatype pyval = PNone | PInt int | PStr string | PList "pyval list"

text \<open>
  The exceptions that the three modules can raise.  \<open>NotImplementedError\<close> and
  \<open>ValueError\<close> carry the message given in \<open>factory.py\<close>; \<open>AttributeError\<close> carries
  the name of the missing attribute.
\<close>

datatype exn =
    NotImplementedError string
  | ValueError string
  | AttributeError string
  | TypeError
  | IndexError
  | OSError

subsection \<open>Built-in string operations\<close>

definition digit_char :: "nat \<Rightarrow> char" where
  "digit_char n = ''0123456789'' ! n"

definition is_digit :: "char \<Rightarrow> bool" where
  "is_digit c = (c \<in> set ''0123456789'')"

text \<open>\<open>str(n)\<close> for a natural number: its decimal digits, most significant first.\<close>

function str_nat :: "nat \<Rightarrow> string" where
  "str_nat n =
     (if n < 10 then [digit_char n] else str_nat (n div 10) @ [digit_char (n mod 10)])"
  by pat_completeness auto
termination
  by (relation "measure id") auto

declare str_nat.simps [simp del]

definition str_int :: "int \<Rightarrow> string" where
  "str_int i = (if i < 0 then CHR ''-'' # str_nat (nat (- i)) else str_nat (nat i))"

text \<open>\<open>s.startswith(p)\<close>, \<open>s.endswith(p)\<close> and the substring test \<open>sub in s\<close>.\<close>

fun startswith :: "string \<Rightarrow> string \<Rightarrow> bool" where
  "startswith s [] = True"
| "startswith [] (p # ps) = False"
| "startswith (c # cs) (p # ps) = (c = p \<and> startswith cs ps)"

definition endswith :: "string \<Rightarrow> string \<Rightarrow> bool" where
  "endswith s p = startswith (rev s) (rev p)"

fun py_in_str :: "string \<Rightarrow> string \<Rightarrow> bool" where
  "py_in_str sub [] = (sub = [])"
| "py_in_str sub (c # cs) = (startswith (c # cs) sub \<or> py_in_str sub cs)"

text \<open>\<open>s.split(sep)\<close> for a separator of one character.\<close>

fun py_split :: "char \<Rightarrow> string \<Rightarrow> string list" where
  "py_split sep [] = [[]]"
| "py_split sep (c # cs) =
     (if c = sep then [] # py_split sep cs
      else (case py_split sep cs of [] \<Rightarrow> [[c]] | w # ws \<Rightarrow> (c # w) # ws))"

text \<open>
  \<open>s.strip()\<close> removes the characters for which \<open>str.isspace\<close> holds from both
  ends: below code point 256 these are 9 to 13, 28 to 32, 133 and 160.
\<close>

definition py_isspace :: "char \<Rightarrow> bool" where
  "py_isspace c =
     (c \<in> set [CHR 0x09, CHR 0x0A, CHR 0x0B, CHR 0x0C, CHR 0x0D, CHR 0x1C, CHR 0x1D,
               CHR 0x1E, CHR 0x1F, CHR 0x20, CHR 0x85, CHR 0xA0])"

definition py_strip :: "string \<Rightarrow> string" where
  "py_strip s = rev (dropWhile py_isspace (rev (dropWhile py_isspace s)))"

text \<open>
  \<open>repr\<close> of a string: quoted with the apostrophe, or with the double quote when
  the string has an apostrophe and no double quote; the quote and the backslash are
  escaped with a backslash, tab, newline and carriage return are written as a
  backslash and \<open>t\<close>, \<open>n\<close> or \<open>r\<close>, and every other non-printable character
  as a backslash, \<open>x\<close> and two hexadecimal digits.
\<close>

definition hex_char :: "nat \<Rightarrow> char" where
  "hex_char n = ''0123456789abcdef'' ! n"

definition py_isprintable :: "char \<Rightarrow> bool" where
  "py_isprintable c =
     (let n = (of_char c :: nat) in (32 \<le> n \<and> n < 127) \<or> (161 \<le> n \<and> n \<noteq> 173))"

definition repr_char :: "char \<Rightarrow> char \<Rightarrow> string" where
  "repr_char q c =
     (if c = q \<or> c = CHR 0x5C then [CHR 0x5C, c]
      else if c = CHR 0x09 then [CHR 0x5C, CHR ''t'']
      else if c = CHR 0x0A then [CHR 0x5C, CHR ''n'']
      else if c = CHR 0x0D then [CHR 0x5C, CHR ''r'']
      else if py_isprintable c then [c]
      else [CHR 0x5C, CHR ''x'', hex_char (of_char c div 16), hex_char (of_char c mod 16)])"

definition repr_str :: "string \<Rightarrow> string" where
  "repr_str s =
     (let q = (if CHR 0x27 \<in> set s \<and> CHR 0x22 \<notin> set s then CHR 0x22 else CHR 0x27)
      in q # concat (map (repr_char q) s) @ [q])"

fun join_sep :: "string \<Rightarrow> string list \<Rightarrow> string" where
  "join_sep sep [] = []"
| "join_sep sep [x] = x"
| "join_sep sep (x # y # ys) = x @ sep @ join_sep sep (y # ys)"

fun py_repr :: "pyval \<Rightarrow> string" where
  "py_repr PNone = ''None''"
| "py_repr (PInt i) = str_int i"
| "py_repr (PStr s) = repr_str s"
| "py_repr (PList xs) = ''['' @ join_sep '', '' (map py_repr xs) @ '']''"

text \<open>
  What a replacement field \<open>{v}\<close> of an f-string inserts: \<open>str(v)\<close>, which is the
  string itself for a string and \<open>repr(v)\<close> for the other values.
\<close>

definition py_format :: "pyval \<Rightarrow> string" where
  "py_format v = (case v of PStr s \<Rightarrow> s | _ \<Rightarrow> py_repr v)"

text \<open>
  The membership test \<open>sub in v\<close> for a string \<open>sub\<close>: a substring test on a
  string, a search for an equal element in a list, a \<open>TypeError\<close> on \<open>None\<close> and
  on an integer.
\<close>

definition py_contains :: "pyval \<Rightarrow> string \<Rightarrow> exn + bool" where
  "py_contains v sub =
     (case v of
        PStr s \<Rightarrow> Inr (py_in_str sub s)
      | PList xs \<Rightarrow> Inr (PStr sub \<in> set xs)
      | _ \<Rightarrow> Inl TypeError)"

text \<open>\<open>os.path.join(a, b)\<close> on a POSIX system.\<close>

definition path_join :: "string \<Rightarrow> string \<Rightarrow> string" where
  "path_join a b =
     (if startswith b ''/'' then b
      else if a = [] \<or> endswith a ''/'' then a @ b
      else a @ ''/'' @ b)"

subsection \<open>The clock\<close>

text \<open>
  A \<open>datetime\<close> object, and \<open>strftime("%Y%m%d_%H%M%S")\<close> on it: the year in
  decimal, then month, day, hour, minute and second zero-padded to two digits.
\<close>

record datetime =
  year :: nat
  month :: nat
  day :: nat
  hour :: nat
  minute :: nat
  second :: nat

definition valid_datetime :: "datetime \<Rightarrow> bool" where
  "valid_datetime d =
     (1000 \<le> year d \<and> year d \<le> 9999 \<and> 1 \<le> month d \<and> month d \<le> 12 \<and>
      1 \<le> day d \<and> day d \<le> 31 \<and> hour d < 24 \<and> minute d < 60 \<and> second d < 60)"

text \<open>
  What a field of \<open>k\<close> letters in the pattern \<open>YYYYMMDD_HHMMSS\<close> stands for: the
  last \<open>k\<close> decimal digits of the number, most significant first, zeros included.
\<close>

fun fixed_digits :: "nat \<Rightarrow> nat \<Rightarrow> string" where
  "fixed_digits 0 n = []"
| "fixed_digits (Suc k) n = fixed_digits k (n div 10) @ [digit_char (n mod 10)]"

definition pad2 :: "nat \<Rightarrow> string" where
  "pad2 n = (if n < 10 then CHR ''0'' # str_nat n else str_nat n)"

definition strftime :: "datetime \<Rightarrow> string" where
  "strftime d =
     str_nat (year d) @ pad2 (month d) @ pad2 (day d) @ ''_'' @
     pad2 (hour d) @ pad2 (minute d) @ pad2 (second d)"

section \<open>The process and its surroundings\<close>

text \<open>
  What \<open>subprocess.run\<close> meets when it is given the dump command:
  \<^item> \<open>Exited rc out err\<close>: the process ran and exited with return code \<open>rc\<close>, and
    its captured standard output and standard error were decoded to the texts
    \<open>out\<close> and \<open>err\<close>;
  \<^item> \<open>Undecodable rc msg\<close>: the process ran and exited with return code \<open>rc\<close>, but
    its captured output is not text in the encoding of the locale, so decoding it
    (\<open>text=True\<close>) raised \<open>UnicodeDecodeError\<close> with the message \<open>msg\<close>;
  \<^item> \<open>NotStarted msg\<close>: no process was started; an exception with the message
    \<open>msg\<close> was raised instead (the executable is missing, an argument is not a
    string).
  Exceptions outside \<open>Exception\<close>, such as \<open>KeyboardInterrupt\<close>, can arrive at any
  moment and are not part of the model.
\<close>

datatype proc_outcome =
    Exited int string string
  | Undecodable int string
  | NotStarted string

text \<open>
  The state a call works in: the backup directory (the class constant
  \<open>BACKUP_DIR\<close>), the paths that exist in the filesystem, whether the filesystem
  refuses to create directories, \<open>os.environ\<close>, the local time, the answer of the
  operating system to a command and an environment, and the log of the calls of
  \<open>subprocess.run\<close> so far: the command and the environment each call was given,
  whether or not a process was started.
\<close>

type_synonym pyenv = "string \<rightharpoonup> pyval"

record world =
  BACKUP_DIR :: string
  present :: "string set"
  readonly :: bool
  environ :: "string \<rightharpoonup> string"
  clock :: datetime
  os_run :: "pyval list \<Rightarrow> pyenv \<Rightarrow> proc_outcome"
  run_calls :: "(pyval list \<times> pyenv) list"

text \<open>
  \<open>os.makedirs(p)\<close>: creates \<open>p\<close> and its missing parent directories; raises
  \<open>OSError\<close> when \<open>p\<close> exists already or the directory cannot be created.
\<close>

definition ancestors :: "string \<Rightarrow> string list" where
  "ancestors p = [take i p. i \<leftarrow> [1..<length p], p ! i = CHR ''/'']"

definition makedirs :: "world \<Rightarrow> string \<Rightarrow> exn + world" where
  "makedirs w p =
     (if readonly w \<or> p \<in> present w then Inl OSError
      else Inr (w\<lparr>present := present w \<union> set (ancestors p) \<union> {p}\<rparr>))"

text \<open>
  \<open>subprocess.run(cmd, env=env, capture_output=True, text=True, check=True)\<close>.
  The captured output is decoded before the return code is looked at, so output
  that cannot be decoded raises \<open>UnicodeDecodeError\<close> whatever the return code is;
  then, with \<open>check=True\<close>, a return code other than 0 raises
  \<open>CalledProcessError\<close>, which carries the return code and the captured standard
  error.  \<open>OtherException\<close> stands for every other exception below \<open>Exception\<close>,
  with its message.
\<close>

datatype run_exn = CalledProcessError int string | OtherException string

definition subprocess_run ::
  "world \<Rightarrow> pyval list \<Rightarrow> pyenv \<Rightarrow> (run_exn + int \<times> string \<times> string) \<times> world" where
  "subprocess_run w cmd env =
     ((case os_run w cmd env of
         Exited rc out err \<Rightarrow>
           if rc \<noteq> 0 then Inl (CalledProcessError rc err) else Inr (rc, out, err)
       | Undecodable rc msg \<Rightarrow> Inl (OtherException msg)
       | NotStarted msg \<Rightarrow> Inl (OtherException msg)),
      w\<lparr>run_calls := run_calls w @ [(cmd, env)]\<rparr>)"

section \<open>base.py\<close>

definition ensure_backup_dir :: "world \<Rightarrow> (exn + string) \<times> world" where
  "ensure_backup_dir w =
     (if BACKUP_DIR w \<notin> present w then
        (case makedirs w (BACKUP_DIR w) of
           Inl e \<Rightarrow> (Inl e, w)
         | Inr w' \<Rightarrow> (Inr (BACKUP_DIR w'), w'))
      else (Inr (BACKUP_DIR w), w))"

definition get_timestamp :: "world \<Rightarrow> string" where
  "get_timestamp w = strftime (clock w)"

section \<open>mysql.py\<close>

text \<open>
  \<open>db_config\<close> is an object read by attribute: a map from attribute names to
  values; reading an attribute it does not have raises \<open>AttributeError\<close>.
\<close>

type_synonym config = "string \<rightharpoonup> pyval"

definition getattr_py :: "config \<Rightarrow> string \<Rightarrow> exn + pyval" where
  "getattr_py obj name =
     (case obj name of None \<Rightarrow> Inl (AttributeError name) | Some v \<Rightarrow> Inr v)"

text \<open>
  Line 17: \<open>db_name.split(',')[0].strip() if ',' in db_name else db_name\<close>.  The
  condition is evaluated first; only a string has the method \<open>split\<close>.
\<close>

definition target_db_of :: "pyval \<Rightarrow> exn + pyval" where
  "target_db_of db_name =
     (case py_contains db_name '','' of
        Inl e \<Rightarrow> Inl e
      | Inr b \<Rightarrow>
          if b then
            (case db_name of
               PStr s \<Rightarrow>
                 (case py_split CHR '','' s of
                    [] \<Rightarrow> Inl IndexError
                  | x # _ \<Rightarrow> Inr (PStr (py_strip x)))
             | _ \<Rightarrow> Inl (AttributeError ''split''))
          else Inr db_name)"

text \<open>Lines 22 and 23: the file name and the path of the dump.\<close>

definition dump_filename :: "pyval \<Rightarrow> string \<Rightarrow> string" where
  "dump_filename target_db timestamp =
     ''backup_mysql_'' @ py_format target_db @ ''_'' @ timestamp @ ''.sql''"

text \<open>Lines 26 to 34: the command.\<close>

definition build_cmd :: "pyval \<Rightarrow> pyval \<Rightarrow> pyval \<Rightarrow> string \<Rightarrow> pyval \<Rightarrow> pyval list" where
  "build_cmd host port user filepath target_db =
     [PStr ''mariadb-dump'',
      PStr (''-h'' @ py_format host),
      PStr (''-P'' @ py_format port),
      PStr (''-u'' @ py_format user),
      PStr (''--result-file='' @ filepath),
      PStr ''--single-transaction'',
      target_db]"

text \<open>Lines 36 and 37: a copy of \<open>os.environ\<close> with \<open>MYSQL_PWD\<close> set.\<close>

definition build_env :: "world \<Rightarrow> pyval \<Rightarrow> pyenv" where
  "build_env w password = (map_option PStr \<circ> environ w)(''MYSQL_PWD'' \<mapsto> password)"

text \<open>
  Lines 7 to 37 of \<open>backup\<close>: everything before the \<open>try\<close> block.  An exception
  raised here leaves \<open>backup\<close>; otherwise the path, the command and the environment
  are ready.
\<close>

definition prepare :: "world \<Rightarrow> config \<Rightarrow> (exn + string \<times> pyval list \<times> pyenv) \<times> world" where
  "prepare w0 db_config =
     (case ensure_backup_dir w0 of (r, w) \<Rightarrow>
     (case r of Inl e \<Rightarrow> (Inl e, w) | Inr _ \<Rightarrow>
     (case getattr_py db_config ''db_host'' of Inl e \<Rightarrow> (Inl e, w) | Inr host \<Rightarrow>
     (case getattr_py db_config ''db_port'' of Inl e \<Rightarrow> (Inl e, w) | Inr port \<Rightarrow>
     (case getattr_py db_config ''db_user'' of Inl e \<Rightarrow> (Inl e, w) | Inr user \<Rightarrow>
     (case getattr_py db_config ''db_password'' of Inl e \<Rightarrow> (Inl e, w) | Inr password \<Rightarrow>
     (case getattr_py db_config ''db_name'' of Inl e \<Rightarrow> (Inl e, w) | Inr db_name \<Rightarrow>
     (case target_db_of db_name of Inl e \<Rightarrow> (Inl e, w) | Inr target_db \<Rightarrow>
       (let timestamp = get_timestamp w;
            filename = dump_filename target_db timestamp;
            filepath = path_join (BACKUP_DIR w) filename;
            cmd = build_cmd host port user filepath target_db;
            env = build_env w password
        in (Inr (filepath, cmd, env), w))))))))))"

text \<open>Lines 39 to 52: the \<open>try\<close> block and its two handlers.\<close>

type_synonym backup_result = "bool \<times> string option \<times> string"

definition run_dump ::
  "world \<Rightarrow> string \<Rightarrow> pyval list \<Rightarrow> pyenv \<Rightarrow> backup_result \<times> world" where
  "run_dump w filepath cmd env =
     (case subprocess_run w cmd env of (r, w') \<Rightarrow>
        (case r of
           Inr _ \<Rightarrow> ((True, Some filepath, ''Backup erfolgreich erstellt.''), w')
         | Inl (CalledProcessError _ stderr) \<Rightarrow>
             ((False, None, ''Fehler beim Erstellen des Backups: '' @ py_format (PStr stderr)), w')
         | Inl (OtherException msg) \<Rightarrow> ((False, None, msg), w')))"

definition backup :: "world \<Rightarrow> config \<Rightarrow> (exn + backup_result) \<times> world" where
  "backup w0 db_config =
     (case prepare w0 db_config of (r, w) \<Rightarrow>
        (case r of
           Inl e \<Rightarrow> (Inl e, w)
         | Inr (filepath, cmd, env) \<Rightarrow>
             (case run_dump w filepath cmd env of (res, w') \<Rightarrow> (Inr res, w'))))"

section \<open>factory.py\<close>

datatype strategy = MySQLBackup

definition get_backup_strategy :: "string \<Rightarrow> exn + strategy" where
  "get_backup_strategy db_type =
     (if db_type = ''mysql'' then Inr MySQLBackup
      else if db_type = ''postgresql'' then
        Inl (NotImplementedError ''PostgreSQL Backup noch nicht implementiert.'')
      else if db_type = ''mongodb'' then
        Inl (NotImplementedError ''MongoDB Backup noch nicht implementiert.'')
      else Inl (ValueError (''Unbekannter Datenbank-Typ: '' @ db_type)))"

section \<open>Example runs\<close>

text \<open>
  A clock, a configuration and a state to run the code on.  The state takes the set
  of existing paths, whether directories can be created, and the answer of the
  operating system; the configuration takes the password and the database name.
\<close>

definition example_clock :: datetime where
  "example_clock =
     \<lparr>year = 2024, month = 3, day = 7, hour = 9, minute = 5, second = 42\<rparr>"

definition example_world :: "string set \<Rightarrow> bool \<Rightarrow> proc_outcome \<Rightarrow> world" where
  "example_world paths ro answer =
     \<lparr>BACKUP_DIR = ''/srv/app/backups'', present = paths, readonly = ro,
      environ = [''PATH'' \<mapsto> ''/usr/bin''], clock = example_clock,
      os_run = (\<lambda>cmd env. answer), run_calls = []\<rparr>"

text \<open>
  The message of the \<open>UnicodeDecodeError\<close> for captured output that starts with
  the byte \<open>0xff\<close>.
\<close>

definition decode_error_message :: string where
  "decode_error_message =
     CHR 0x27 # ''utf-8'' @ CHR 0x27 # '' codec can'' @ CHR 0x27 #
     ''t decode byte 0xff in position 0: invalid start byte''"

definition example_config :: "pyval \<Rightarrow> pyval \<Rightarrow> config" where
  "example_config password db_name =
     [''db_host'' \<mapsto> PStr ''db.local'', ''db_port'' \<mapsto> PInt 3306,
      ''db_user'' \<mapsto> PStr ''root'', ''db_password'' \<mapsto> password,
      ''db_name'' \<mapsto> db_name]"

section \<open>Properties of the built-in operations\<close>

lemma digit_char_is_digit: "n < 10 \<Longrightarrow> is_digit (digit_char n)"
  unfolding is_digit_def digit_char_def by (rule nth_mem) simp

lemma str_nat_digits: "c \<in> set (str_nat n) \<Longrightarrow> is_digit c"
proof (induction n arbitrary: c rule: str_nat.induct)
  case (1 n)
  show ?case
  proof (cases "n < 10")
    case True
    with "1.prems" show ?thesis
      by (simp add: str_nat.simps [of n] digit_char_is_digit)
  next
    case False
    then have "set (str_nat n) = set (str_nat (n div 10)) \<union> {digit_char (n mod 10)}"
      by (simp add: str_nat.simps [of n])
    with "1.prems" have "c \<in> set (str_nat (n div 10)) \<or> c = digit_char (n mod 10)"
      by blast
    with False "1.IH" show ?thesis
      by (auto simp: digit_char_is_digit)
  qed
qed

lemma str_nat_length_small: "n < 10 \<Longrightarrow> length (str_nat n) = 1"
  by (simp add: str_nat.simps [of n])

lemma str_nat_length_step: "10 \<le> n \<Longrightarrow> length (str_nat n) = Suc (length (str_nat (n div 10)))"
  by (simp add: str_nat.simps [of n])

lemma str_nat_length2: "10 \<le> n \<Longrightarrow> n < 100 \<Longrightarrow> length (str_nat n) = 2"
  by (simp add: str_nat_length_step str_nat_length_small)

lemma str_nat_length4:
  assumes "1000 \<le> n" and "n \<le> 9999"
  shows "length (str_nat n) = 4"
proof -
  have "100 \<le> n div 10" and "n div 10 < 1000" using assms by arith+
  then have "10 \<le> n div 10 div 10" and "n div 10 div 10 < 100" by arith+
  then have "length (str_nat (n div 10 div 10)) = 2" by (rule str_nat_length2)
  moreover have "10 \<le> n" and "10 \<le> n div 10" using assms by arith+
  ultimately show ?thesis by (simp add: str_nat_length_step)
qed

lemma pad2_length: "n < 100 \<Longrightarrow> length (pad2 n) = 2"
  by (simp add: pad2_def str_nat_length_small str_nat_length2)

lemma pad2_digits: "c \<in> set (pad2 n) \<Longrightarrow> is_digit c"
  by (auto simp: pad2_def is_digit_def [of "CHR ''0''"] dest: str_nat_digits split: if_splits)

lemma str_nat_small: "n < 10 \<Longrightarrow> str_nat n = [digit_char n]"
  by (simp add: str_nat.simps [of n])

lemma str_nat_step: "10 \<le> n \<Longrightarrow> str_nat n = str_nat (n div 10) @ [digit_char (n mod 10)]"
  by (simp add: str_nat.simps [of n])

lemma length_fixed_digits: "length (fixed_digits k n) = k"
  by (induction k arbitrary: n) simp_all

lemma fixed_digits_is_digit: "c \<in> set (fixed_digits k n) \<Longrightarrow> is_digit c"
  by (induction k arbitrary: n) (auto simp: digit_char_is_digit)

lemma fixed_digits_2:
  "fixed_digits 2 n = [digit_char (n div 10 mod 10), digit_char (n mod 10)]"
proof -
  have "(2::nat) = Suc (Suc 0)" by simp
  then show ?thesis by (simp only: fixed_digits.simps append.simps)
qed

lemma fixed_digits_4:
  "fixed_digits 4 n =
     [digit_char (n div 10 div 10 div 10 mod 10), digit_char (n div 10 div 10 mod 10),
      digit_char (n div 10 mod 10), digit_char (n mod 10)]"
proof -
  have "(4::nat) = Suc (Suc (Suc (Suc 0)))" by simp
  then show ?thesis by (simp only: fixed_digits.simps append.simps)
qed

lemma str_nat_two:
  assumes "10 \<le> n" and "n < 100"
  shows "str_nat n = [digit_char (n div 10 mod 10), digit_char (n mod 10)]"
proof -
  from assms have "n div 10 < 10" by arith
  then have "str_nat (n div 10) = [digit_char (n div 10)]" and "n div 10 mod 10 = n div 10"
    by (simp_all add: str_nat_small)
  with str_nat_step [OF assms(1)] show ?thesis by simp
qed

lemma str_nat_year:
  assumes "1000 \<le> n" and "n \<le> 9999"
  shows "str_nat n = fixed_digits 4 n"
proof -
  have a: "10 \<le> n" "10 \<le> n div 10" "10 \<le> n div 10 div 10" "n div 10 div 10 < 100"
    using assms by arith+
  from a(3,4) have "n div 10 div 10 div 10 < 10" by arith
  then have m: "n div 10 div 10 div 10 mod 10 = n div 10 div 10 div 10" by simp
  have "str_nat (n div 10 div 10) =
          [digit_char (n div 10 div 10 div 10 mod 10), digit_char (n div 10 div 10 mod 10)]"
    using a(3,4) by (rule str_nat_two)
  then have "str_nat (n div 10) =
          [digit_char (n div 10 div 10 div 10 mod 10), digit_char (n div 10 div 10 mod 10),
           digit_char (n div 10 mod 10)]"
    using str_nat_step [OF a(2)] by simp
  then have "str_nat n =
          [digit_char (n div 10 div 10 div 10 mod 10), digit_char (n div 10 div 10 mod 10),
           digit_char (n div 10 mod 10), digit_char (n mod 10)]"
    using str_nat_step [OF a(1)] by simp
  then show ?thesis by (simp only: fixed_digits_4)
qed

lemma pad2_fixed_digits:
  assumes "n < 100"
  shows "pad2 n = fixed_digits 2 n"
proof (cases "n < 10")
  case True
  then have "n div 10 = 0" by simp
  then have "digit_char (n div 10 mod 10) = CHR ''0''" by (simp add: digit_char_def)
  with True show ?thesis
    by (simp add: pad2_def str_nat_small fixed_digits_2)
next
  case False
  then have "10 \<le> n" by simp
  then have "str_nat n = [digit_char (n div 10 mod 10), digit_char (n mod 10)]"
    using assms by (rule str_nat_two)
  with False show ?thesis
    by (simp add: pad2_def fixed_digits_2)
qed

lemma strftime_fixed_digits:
  assumes "valid_datetime d"
  shows "strftime d =
           fixed_digits 4 (year d) @ fixed_digits 2 (month d) @ fixed_digits 2 (day d) @
           ''_'' @
           fixed_digits 2 (hour d) @ fixed_digits 2 (minute d) @ fixed_digits 2 (second d)"
proof -
  from assms have "str_nat (year d) = fixed_digits 4 (year d)"
    by (simp add: valid_datetime_def str_nat_year)
  moreover from assms have "pad2 (month d) = fixed_digits 2 (month d)"
    "pad2 (day d) = fixed_digits 2 (day d)" "pad2 (hour d) = fixed_digits 2 (hour d)"
    "pad2 (minute d) = fixed_digits 2 (minute d)" "pad2 (second d) = fixed_digits 2 (second d)"
    by (simp_all add: valid_datetime_def pad2_fixed_digits)
  ultimately show ?thesis
    by (simp only: strftime_def)
qed

lemma strftime_shape:
  assumes "valid_datetime d"
  shows "\<exists>a b. strftime d = a @ ''_'' @ b \<and> length a = 8 \<and> length b = 6 \<and>
           (\<forall>c \<in> set (a @ b). is_digit c)"
proof -
  let ?a = "str_nat (year d) @ pad2 (month d) @ pad2 (day d)"
  let ?b = "pad2 (hour d) @ pad2 (minute d) @ pad2 (second d)"
  from assms have "length (str_nat (year d)) = 4"
    by (simp add: valid_datetime_def str_nat_length4)
  moreover from assms have "length (pad2 (month d)) = 2" "length (pad2 (day d)) = 2"
    "length (pad2 (hour d)) = 2" "length (pad2 (minute d)) = 2" "length (pad2 (second d)) = 2"
    by (simp_all add: valid_datetime_def pad2_length)
  ultimately have "length ?a = 8" "length ?b = 6" by simp_all
  moreover have "\<forall>c \<in> set (?a @ ?b). is_digit c"
    by (auto dest: str_nat_digits pad2_digits)
  moreover have "strftime d = ?a @ ''_'' @ ?b"
    by (simp add: strftime_def)
  ultimately show ?thesis by blast
qed

lemma py_in_str_single: "py_in_str [c] s = (c \<in> set s)"
  by (induction s) auto

lemma py_split_hd: "\<exists>ws. py_split c s = takeWhile (\<lambda>x. x \<noteq> c) s # ws"
  by (induction s) (auto split: list.splits)

lemma rev_dropWhile_split:
  "xs = rev (dropWhile P (rev xs)) @ rev (takeWhile P (rev xs))"
proof -
  have "rev (dropWhile P (rev xs)) @ rev (takeWhile P (rev xs)) =
        rev (takeWhile P (rev xs) @ dropWhile P (rev xs))"
    by (simp only: rev_append)
  also have "\<dots> = rev (rev xs)"
    by (simp only: takeWhile_dropWhile_id)
  finally show ?thesis by simp
qed

lemma py_strip_decomp:
  "\<exists>l r. s = l @ py_strip s @ r \<and> (\<forall>c \<in> set l. py_isspace c) \<and> (\<forall>c \<in> set r. py_isspace c)"
proof -
  let ?y = "dropWhile py_isspace s"
  let ?l = "takeWhile py_isspace s"
  let ?r = "rev (takeWhile py_isspace (rev ?y))"
  have "?y = py_strip s @ ?r"
    unfolding py_strip_def by (rule rev_dropWhile_split)
  then have "?l @ ?y = ?l @ py_strip s @ ?r" by simp
  then have "s = ?l @ py_strip s @ ?r" by simp
  moreover have "\<forall>c \<in> set ?l. py_isspace c" by (auto dest: set_takeWhileD)
  moreover have "\<forall>c \<in> set ?r. py_isspace c" by (auto dest: set_takeWhileD)
  ultimately show ?thesis by blast
qed

lemma py_strip_ends:
  assumes "py_strip s \<noteq> []"
  shows "\<not> py_isspace (hd (py_strip s)) \<and> \<not> py_isspace (last (py_strip s))"
proof -
  let ?y = "dropWhile py_isspace s"
  let ?z = "dropWhile py_isspace (rev ?y)"
  from assms have z: "?z \<noteq> []" by (simp add: py_strip_def)
  then have "\<not> py_isspace (hd ?z)" by (rule hd_dropWhile)
  moreover from z have "last (py_strip s) = hd ?z"
    by (simp add: py_strip_def last_rev)
  ultimately have l: "\<not> py_isspace (last (py_strip s))" by simp
  have y: "?y = py_strip s @ rev (takeWhile py_isspace (rev ?y))"
    unfolding py_strip_def by (rule rev_dropWhile_split)
  have "?y \<noteq> []"
  proof
    assume "?y = []"
    then have "py_strip s = []" by (simp only: py_strip_def rev.simps dropWhile.simps)
    with assms show False by simp
  qed
  then have "\<not> py_isspace (hd ?y)" by (rule hd_dropWhile)
  moreover from y assms have "hd ?y = hd (py_strip s)"
    by (metis hd_append2)
  ultimately show ?thesis using l by simp
qed

lemma ensure_backup_dir_frame:
  "BACKUP_DIR (snd (ensure_backup_dir w)) = BACKUP_DIR w"
  "readonly (snd (ensure_backup_dir w)) = readonly w"
  "environ (snd (ensure_backup_dir w)) = environ w"
  "clock (snd (ensure_backup_dir w)) = clock w"
  "os_run (snd (ensure_backup_dir w)) = os_run w"
  "run_calls (snd (ensure_backup_dir w)) = run_calls w"
  by (simp_all add: ensure_backup_dir_def makedirs_def)

lemma ensure_backup_dir_Inr:
  "fst (ensure_backup_dir w) = Inr d \<longleftrightarrow>
     d = BACKUP_DIR w \<and> (BACKUP_DIR w \<in> present w \<or> \<not> readonly w)"
  by (auto simp: ensure_backup_dir_def makedirs_def)

lemma ensure_backup_dir_present:
  "fst (ensure_backup_dir w) = Inr d \<Longrightarrow> BACKUP_DIR w \<in> present (snd (ensure_backup_dir w))"
  by (auto simp: ensure_backup_dir_def makedirs_def split: if_splits)

section \<open>The two phases of \<open>backup\<close>\<close>

lemma prepare_world: "snd (prepare w cfg) = snd (ensure_backup_dir w)"
  by (simp add: prepare_def Let_def split: prod.splits sum.splits)

lemma prepare_Inr:
  "fst (prepare w cfg) = Inr (fp, cmd, env) \<longleftrightarrow>
     (\<exists>host port user password db_name target_db.
        fst (ensure_backup_dir w) = Inr (BACKUP_DIR w) \<and>
        cfg ''db_host'' = Some host \<and> cfg ''db_port'' = Some port \<and>
        cfg ''db_user'' = Some user \<and> cfg ''db_password'' = Some password \<and>
        cfg ''db_name'' = Some db_name \<and> target_db_of db_name = Inr target_db \<and>
        fp = path_join (BACKUP_DIR w) (dump_filename target_db (get_timestamp w)) \<and>
        cmd = build_cmd host port user fp target_db \<and>
        env = build_env w password)"
proof -
  obtain r w1 where e: "ensure_backup_dir w = (r, w1)" by (cases "ensure_backup_dir w")
  have f: "BACKUP_DIR w1 = BACKUP_DIR w" "clock w1 = clock w" "environ w1 = environ w"
    using ensure_backup_dir_frame [of w] e by simp_all
  then have be: "build_env w1 p = build_env w p" for p
    by (simp add: build_env_def)
  show ?thesis
  proof (cases r)
    case (Inl e0)
    with e show ?thesis by (simp add: prepare_def)
  next
    case (Inr d)
    with e ensure_backup_dir_Inr [of w d] have d: "d = BACKUP_DIR w" by simp
    show ?thesis
      by (auto simp: prepare_def e Inr d f be Let_def getattr_py_def get_timestamp_def
          split: sum.splits option.splits)
  qed
qed

lemma backup_raise:
  "fst (backup w cfg) = Inl e \<longleftrightarrow> fst (prepare w cfg) = Inl e"
  by (auto simp: backup_def run_dump_def subprocess_run_def split: prod.splits sum.splits)

lemma backup_raise_world:
  "fst (prepare w cfg) = Inl e \<Longrightarrow> snd (backup w cfg) = snd (ensure_backup_dir w)"
  using prepare_world [of w cfg]
  by (auto simp: backup_def split: prod.splits sum.splits)

lemma backup_run:
  assumes "fst (prepare w cfg) = Inr (fp, cmd, env)"
  shows "backup w cfg =
           (Inr (case os_run w cmd env of
                   Exited rc out err \<Rightarrow>
                     if rc = 0 then (True, Some fp, ''Backup erfolgreich erstellt.'')
                     else (False, None, ''Fehler beim Erstellen des Backups: '' @ err)
                 | Undecodable rc msg \<Rightarrow> (False, None, msg)
                 | NotStarted msg \<Rightarrow> (False, None, msg)),
            (snd (ensure_backup_dir w))\<lparr>run_calls := run_calls w @ [(cmd, env)]\<rparr>)"
proof -
  obtain w1 where p: "prepare w cfg = (Inr (fp, cmd, env), w1)"
    using assms by (cases "prepare w cfg") simp
  with prepare_world [of w cfg] have w1: "w1 = snd (ensure_backup_dir w)" by simp
  have f: "os_run w1 = os_run w" "run_calls w1 = run_calls w"
    unfolding w1 by (simp_all add: ensure_backup_dir_frame)
  show ?thesis
    by (simp add: backup_def p run_dump_def subprocess_run_def f py_format_def w1 [symmetric]
        split: proc_outcome.splits)
qed

lemma backup_run_calls:
  "run_calls (snd (backup w cfg)) =
     (case fst (prepare w cfg) of
        Inl e \<Rightarrow> run_calls w
      | Inr (fp, cmd, env) \<Rightarrow> run_calls w @ [(cmd, env)])"
proof (cases "fst (prepare w cfg)")
  case (Inl e)
  then show ?thesis
    by (simp add: backup_raise_world ensure_backup_dir_frame)
next
  case (Inr x)
  obtain fp cmd env where x: "x = (fp, cmd, env)" by (cases x)
  from backup_run [of w cfg fp cmd env] Inr x show ?thesis by simp
qed

lemma backup_environ: "environ (snd (backup w cfg)) = environ w"
proof (cases "fst (prepare w cfg)")
  case (Inl e)
  then show ?thesis
    by (simp add: backup_raise_world ensure_backup_dir_frame)
next
  case (Inr x)
  obtain fp cmd env where x: "x = (fp, cmd, env)" by (cases x)
  from backup_run [of w cfg fp cmd env] Inr x show ?thesis
    by (simp add: ensure_backup_dir_frame)
qed

lemma prepare_password:
  "fst (prepare w (cfg(''db_password'' \<mapsto> p))) =
     (case fst (prepare w (cfg(''db_password'' \<mapsto> q))) of
        Inl e \<Rightarrow> Inl e
      | Inr (fp, cmd, env) \<Rightarrow> Inr (fp, cmd, env(''MYSQL_PWD'' \<mapsto> p)))"
proof -
  obtain r w1 where e: "ensure_backup_dir w = (r, w1)" by (cases "ensure_backup_dir w")
  show ?thesis
    by (cases r)
      (auto simp: prepare_def e getattr_py_def Let_def build_env_def
        split: sum.splits option.splits)
qed

lemma startswith_dump_filename: "\<not> startswith (dump_filename t ts) ''/''"
  by (simp add: dump_filename_def)

lemma path_join_no_root:
  assumes "\<not> startswith b ''/''"
  shows "path_join a b =
           a @ (if a = [] \<or> last a = CHR ''/'' then [] else ''/'') @ b"
proof (cases a rule: rev_cases)
  case Nil
  with assms show ?thesis by (simp add: path_join_def)
next
  case (snoc xs x)
  with assms show ?thesis by (simp add: path_join_def endswith_def)
qed

lemma path_join_prefix: "\<not> startswith b ''/'' \<Longrightarrow> take (length a) (path_join a b) = a"
  by (simp add: path_join_def)


section \<open>The example run, evaluated\<close>

lemma example_timestamp: "get_timestamp (example_world ps ro a) = ''20240307_090542''"
  by (simp add: get_timestamp_def example_world_def example_clock_def strftime_def pad2_def
      str_nat.simps digit_char_def)

lemma example_os_run: "os_run (example_world ps ro a) cmd env = a"
  by (simp add: example_world_def)

lemma example_ensure:
  "fst (ensure_backup_dir (example_world {} False a)) = Inr (BACKUP_DIR (example_world {} False a))"
  by (simp add: ensure_backup_dir_Inr example_world_def)

lemma example_prepare:
  "fst (prepare (example_world {} False a) (example_config pw (PStr ''appdb''))) =
     Inr (''/srv/app/backups/backup_mysql_appdb_20240307_090542.sql'',
          [PStr ''mariadb-dump'', PStr ''-hdb.local'', PStr ''-P3306'', PStr ''-uroot'',
           PStr ''--result-file=/srv/app/backups/backup_mysql_appdb_20240307_090542.sql'',
           PStr ''--single-transaction'', PStr ''appdb''],
          [''PATH'' \<mapsto> PStr ''/usr/bin'', ''MYSQL_PWD'' \<mapsto> pw])"
  unfolding prepare_Inr
  by (simp add: example_ensure example_timestamp)
    (simp add: example_config_def example_world_def target_db_of_def py_contains_def
      dump_filename_def py_format_def path_join_def endswith_def build_cmd_def build_env_def
      str_int_def str_nat.simps digit_char_def fun_eq_iff)

lemma example_config_password:
  "(example_config q d)(''db_password'' \<mapsto> p) = example_config p d"
  by (auto simp: example_config_def fun_eq_iff)

section \<open>The factory\<close>

text \<open>
  C1.  The factory splits on the engine identifier, and the split is total: for
  \<open>mysql\<close> it returns a MySQL strategy; for \<open>postgresql\<close> and for \<open>mongodb\<close> it
  raises \<open>NotImplementedError\<close>; for every other string it raises the error for an
  unknown engine, which the code spells \<open>ValueError\<close> and which is never a
  \<open>NotImplementedError\<close>.  The three conditions cover all strings, so there is no
  other outcome.
\<close>

theorem get_backup_strategy_cases:
  "(db_type = ''mysql'' \<longrightarrow> get_backup_strategy db_type = Inr MySQLBackup) \<and>
   (db_type = ''postgresql'' \<or> db_type = ''mongodb'' \<longrightarrow>
      (\<exists>m. get_backup_strategy db_type = Inl (NotImplementedError m))) \<and>
   (db_type \<noteq> ''mysql'' \<and> db_type \<noteq> ''postgresql'' \<and> db_type \<noteq> ''mongodb'' \<longrightarrow>
      get_backup_strategy db_type =
        Inl (ValueError (''Unbekannter Datenbank-Typ: '' @ db_type))) \<and>
   (\<forall>m m'. ValueError m \<noteq> NotImplementedError m')"
  by (auto simp: get_backup_strategy_def)

theorem get_backup_strategy_cases_witness:
  "get_backup_strategy ''mysql'' = Inr MySQLBackup \<and>
   (\<exists>m. get_backup_strategy ''postgresql'' = Inl (NotImplementedError m)) \<and>
   (\<exists>m. get_backup_strategy ''mongodb'' = Inl (NotImplementedError m)) \<and>
   get_backup_strategy ''sqlite'' = Inl (ValueError ''Unbekannter Datenbank-Typ: sqlite'')"
  using get_backup_strategy_cases [of "''mysql''"]
    get_backup_strategy_cases [of "''postgresql''"]
    get_backup_strategy_cases [of "''mongodb''"]
    get_backup_strategy_cases [of "''sqlite''"]
  by simp

section \<open>The target database\<close>

text \<open>
  C4.  For every string \<open>db_name\<close>: when it has no comma, the target database is
  the whole string, unchanged; when it has a comma, the target is the part before
  the first comma with the whitespace at both ends removed, that is, the part
  before the first comma is some whitespace, the target, and some whitespace, and
  the target neither starts nor ends with whitespace.  In particular
  \<open>appdb,logsdb\<close> gives \<open>appdb\<close> and \<open>appdb\<close> gives \<open>appdb\<close>.
\<close>

theorem target_db_of_string:
  "(CHR '','' \<notin> set s \<longrightarrow> target_db_of (PStr s) = Inr (PStr s)) \<and>
   (CHR '','' \<in> set s \<longrightarrow>
      (\<exists>pre rest l t r.
         s = pre @ '','' @ rest \<and> CHR '','' \<notin> set pre \<and>
         pre = l @ t @ r \<and> (\<forall>c \<in> set l. py_isspace c) \<and> (\<forall>c \<in> set r. py_isspace c) \<and>
         (t \<noteq> [] \<longrightarrow> \<not> py_isspace (hd t) \<and> \<not> py_isspace (last t)) \<and>
         target_db_of (PStr s) = Inr (PStr t))) \<and>
   target_db_of (PStr ''appdb,logsdb'') = Inr (PStr ''appdb'') \<and>
   target_db_of (PStr ''appdb'') = Inr (PStr ''appdb'')"
proof (intro conjI impI)
  assume "CHR '','' \<notin> set s"
  then show "target_db_of (PStr s) = Inr (PStr s)"
    by (simp add: target_db_of_def py_contains_def py_in_str_single)
next
  assume c: "CHR '','' \<in> set s"
  let ?pre = "takeWhile (\<lambda>x. x \<noteq> CHR '','') s"
  let ?post = "dropWhile (\<lambda>x. x \<noteq> CHR '','') s"
  from c have "?post \<noteq> []" by simp
  then have "hd ?post = CHR '',''"
    using hd_dropWhile [of "\<lambda>x. x \<noteq> CHR '',''" s] by simp
  with \<open>?post \<noteq> []\<close> have "?post = '','' @ tl ?post"
    by (cases ?post) simp_all
  then have "?pre @ ?post = ?pre @ '','' @ tl ?post" by simp
  then have s: "s = ?pre @ '','' @ tl ?post" by simp
  have n: "CHR '','' \<notin> set ?pre" by (auto dest: set_takeWhileD)
  obtain ws where "py_split CHR '','' s = ?pre # ws"
    using py_split_hd [of "CHR '',''" s] by blast
  with c have t: "target_db_of (PStr s) = Inr (PStr (py_strip ?pre))"
    by (simp add: target_db_of_def py_contains_def py_in_str_single)
  obtain l r where d: "?pre = l @ py_strip ?pre @ r" "\<forall>c \<in> set l. py_isspace c"
    "\<forall>c \<in> set r. py_isspace c"
    using py_strip_decomp [of ?pre] by blast
  have e: "py_strip ?pre \<noteq> [] \<longrightarrow>
        \<not> py_isspace (hd (py_strip ?pre)) \<and> \<not> py_isspace (last (py_strip ?pre))"
    using py_strip_ends [of ?pre] by blast
  from s n d e t
  show "\<exists>pre rest l t r.
         s = pre @ '','' @ rest \<and> CHR '','' \<notin> set pre \<and>
         pre = l @ t @ r \<and> (\<forall>c \<in> set l. py_isspace c) \<and> (\<forall>c \<in> set r. py_isspace c) \<and>
         (t \<noteq> [] \<longrightarrow> \<not> py_isspace (hd t) \<and> \<not> py_isspace (last t)) \<and>
         target_db_of (PStr s) = Inr (PStr t)"
    by blast
next
  show "target_db_of (PStr ''appdb,logsdb'') = Inr (PStr ''appdb'')"
    by (simp add: target_db_of_def py_contains_def py_strip_def py_isspace_def)
next
  show "target_db_of (PStr ''appdb'') = Inr (PStr ''appdb'')"
    by (simp add: target_db_of_def py_contains_def)
qed

theorem target_db_of_string_witness:
  "CHR '','' \<notin> set ''appdb'' \<and> target_db_of (PStr ''appdb'') = Inr (PStr ''appdb'') \<and>
   CHR '','' \<in> set ''appdb , logsdb'' \<and>
   target_db_of (PStr ''appdb , logsdb'') = Inr (PStr ''appdb'')"
proof -
  have "target_db_of (PStr ''appdb , logsdb'') = Inr (PStr ''appdb'')"
    by (simp add: target_db_of_def py_contains_def py_strip_def py_isspace_def)
  then show ?thesis
    using target_db_of_string [of "''appdb''"] target_db_of_string [of "''appdb , logsdb''"]
    by simp
qed

section \<open>The backup directory\<close>

text \<open>
  C8, as stated, fails: where the directory does not exist and cannot be created,
  \<open>os.makedirs\<close> raises, so the first call fails, and so does the second.
\<close>

theorem ensure_backup_dir_readonly_counterexample:
  "fst (ensure_backup_dir (example_world {} True (Exited 0 [] []))) = Inl OSError \<and>
   fst (ensure_backup_dir (snd (ensure_backup_dir (example_world {} True (Exited 0 [] []))))) =
     Inl OSError"
  by (simp add: ensure_backup_dir_def makedirs_def example_world_def)

text \<open>
  C8, amended.  From every starting state in which the directory exists already or
  can be created, two calls in succession do not fail, both return the path
  \<open>BACKUP_DIR\<close>, the directory exists after the first call, and the second call
  leaves the state as the first call left it.
\<close>

theorem ensure_backup_dir_idempotent:
  assumes "BACKUP_DIR w \<in> present w \<or> \<not> readonly w"
  shows "fst (ensure_backup_dir w) = Inr (BACKUP_DIR w) \<and>
         fst (ensure_backup_dir (snd (ensure_backup_dir w))) = Inr (BACKUP_DIR w) \<and>
         BACKUP_DIR w \<in> present (snd (ensure_backup_dir w)) \<and>
         snd (ensure_backup_dir (snd (ensure_backup_dir w))) = snd (ensure_backup_dir w)"
  using assms by (auto simp: ensure_backup_dir_def makedirs_def)

theorem ensure_backup_dir_idempotent_witness:
  "\<not> readonly (example_world {} False (Exited 0 [] [])) \<and>
   fst (ensure_backup_dir (example_world {} False (Exited 0 [] []))) = Inr ''/srv/app/backups'' \<and>
   fst (ensure_backup_dir (snd (ensure_backup_dir (example_world {} False (Exited 0 [] []))))) =
     Inr ''/srv/app/backups'' \<and>
   ''/srv/app/backups'' \<in> present (example_world {''/srv/app/backups''} True (Exited 0 [] [])) \<and>
   fst (ensure_backup_dir (example_world {''/srv/app/backups''} True (Exited 0 [] []))) =
     Inr ''/srv/app/backups'' \<and>
   snd (ensure_backup_dir (example_world {''/srv/app/backups''} True (Exited 0 [] []))) =
     example_world {''/srv/app/backups''} True (Exited 0 [] [])"
proof -
  have a: "BACKUP_DIR (example_world {} False (Exited 0 [] [])) \<in>
             present (example_world {} False (Exited 0 [] [])) \<or>
           \<not> readonly (example_world {} False (Exited 0 [] []))"
    by (simp add: example_world_def)
  have b: "BACKUP_DIR (example_world {''/srv/app/backups''} True (Exited 0 [] [])) \<in>
             present (example_world {''/srv/app/backups''} True (Exited 0 [] [])) \<or>
           \<not> readonly (example_world {''/srv/app/backups''} True (Exited 0 [] []))"
    by (simp add: example_world_def)
  have c: "snd (ensure_backup_dir (example_world {''/srv/app/backups''} True (Exited 0 [] []))) =
     example_world {''/srv/app/backups''} True (Exited 0 [] [])"
    by (simp add: ensure_backup_dir_def example_world_def)
  from ensure_backup_dir_idempotent [OF a] ensure_backup_dir_idempotent [OF b] c
  show ?thesis by (simp add: example_world_def)
qed

section \<open>The result of a run\<close>

text \<open>
  C2, as stated, fails twice.  On a return code of 1 with \<open>Access denied\<close> on
  standard error, the message is not \<open>Error creating backup: Access denied\<close>: the
  prefix in the code is \<open>Fehler beim Erstellen des Backups: \<close>.  And when the
  process exits with return code 1 but its captured output cannot be decoded, the
  message is that of the \<open>UnicodeDecodeError\<close>, with no prefix.
\<close>

theorem backup_failure_message_counterexample:
  "fst (backup (example_world {} False (Exited 1 [] ''Access denied''))
          (example_config (PStr ''secret'') (PStr ''appdb''))) =
     Inr (False, None, ''Fehler beim Erstellen des Backups: Access denied'') \<and>
   fst (backup (example_world {} False (Exited 1 [] ''Access denied''))
          (example_config (PStr ''secret'') (PStr ''appdb''))) \<noteq>
     Inr (False, None, ''Error creating backup: '' @ ''Access denied'') \<and>
   fst (backup (example_world {} False (Undecodable 1 decode_error_message))
          (example_config (PStr ''secret'') (PStr ''appdb''))) =
     Inr (False, None, decode_error_message)"
  by (simp add: backup_run [OF example_prepare] example_os_run)

text \<open>
  C2, amended.  In every run that reaches the call of \<open>subprocess.run\<close>: when the
  process exits with a return code other than 0 and its captured output is
  decoded, \<open>backup\<close> returns the failure result whose message is
  \<open>Fehler beim Erstellen des Backups: \<close> followed by the captured standard error
  and whose path is \<open>None\<close>; when the captured output cannot be decoded, or no
  process can be started, \<open>backup\<close> returns the failure result with the message of
  the exception and the path \<open>None\<close>.  All three are results returned, not
  exceptions raised.
\<close>

theorem backup_failure_result:
  assumes "fst (prepare w cfg) = Inr (fp, cmd, env)"
  shows "(os_run w cmd env = Exited rc out err \<and> rc \<noteq> 0 \<longrightarrow>
            fst (backup w cfg) =
              Inr (False, None, ''Fehler beim Erstellen des Backups: '' @ err)) \<and>
         (os_run w cmd env = Undecodable rc msg \<longrightarrow>
            fst (backup w cfg) = Inr (False, None, msg)) \<and>
         (os_run w cmd env = NotStarted msg \<longrightarrow>
            fst (backup w cfg) = Inr (False, None, msg))"
  by (simp add: backup_run [OF assms])

theorem backup_failure_result_witness:
  "(\<exists>fp cmd env.
      fst (prepare (example_world {} False (Exited 1 [] ''Access denied''))
             (example_config (PStr ''secret'') (PStr ''appdb''))) = Inr (fp, cmd, env) \<and>
      os_run (example_world {} False (Exited 1 [] ''Access denied'')) cmd env =
        Exited 1 [] ''Access denied'') \<and>
   fst (backup (example_world {} False (Exited 1 [] ''Access denied''))
          (example_config (PStr ''secret'') (PStr ''appdb''))) =
     Inr (False, None, ''Fehler beim Erstellen des Backups: Access denied'') \<and>
   fst (backup (example_world {} False (Undecodable 1 decode_error_message))
          (example_config (PStr ''secret'') (PStr ''appdb''))) =
     Inr (False, None, decode_error_message) \<and>
   fst (backup (example_world {} False (NotStarted ''No such file or directory''))
          (example_config (PStr ''secret'') (PStr ''appdb''))) =
     Inr (False, None, ''No such file or directory'')"
  using backup_failure_result [OF example_prepare, of "Exited 1 [] ''Access denied''"
      "PStr ''secret''" 1 "[]" "''Access denied''"]
    backup_failure_result [OF example_prepare, of "Undecodable 1 decode_error_message"
      "PStr ''secret''" 1 _ _ decode_error_message]
    backup_failure_result [OF example_prepare, of "NotStarted ''No such file or directory''"
      "PStr ''secret''" _ _ _ "''No such file or directory''"]
  by (simp add: example_os_run example_prepare)

text \<open>
  C3, as stated, fails twice.  On a return code of 0 the message is not
  \<open>Backup created successfully.\<close>: the code says \<open>Backup erfolgreich erstellt.\<close>
  And the return code alone does not decide: when the process exits with return
  code 0 but its captured output cannot be decoded, \<open>backup\<close> returns a failure.
\<close>

theorem backup_success_message_counterexample:
  "fst (backup (example_world {} False (Exited 0 [] []))
          (example_config (PStr ''secret'') (PStr ''appdb''))) =
     Inr (True, Some ''/srv/app/backups/backup_mysql_appdb_20240307_090542.sql'',
          ''Backup erfolgreich erstellt.'') \<and>
   fst (backup (example_world {} False (Exited 0 [] []))
          (example_config (PStr ''secret'') (PStr ''appdb''))) \<noteq>
     Inr (True, Some ''/srv/app/backups/backup_mysql_appdb_20240307_090542.sql'',
          ''Backup created successfully.'') \<and>
   fst (backup (example_world {} False (Undecodable 0 decode_error_message))
          (example_config (PStr ''secret'') (PStr ''appdb''))) =
     Inr (False, None, decode_error_message)"
  by (simp add: backup_run [OF example_prepare] example_os_run)

text \<open>
  C3, amended.  In every run that reaches the call of \<open>subprocess.run\<close> and in
  which the process exits with return code 0 and its captured output is decoded,
  \<open>backup\<close> returns the success result with the path it built and the message
  \<open>Backup erfolgreich erstellt.\<close>  What \<open>subprocess.run\<close> meets decides alone, and
  the file is not looked at: the result is a success exactly when the process
  exited with return code 0 and its captured output was decoded, whatever the
  filesystem holds.
\<close>

theorem backup_success_result:
  assumes "fst (prepare w cfg) = Inr (fp, cmd, env)"
  shows "(os_run w cmd env = Exited 0 out err \<longrightarrow>
            fst (backup w cfg) = Inr (True, Some fp, ''Backup erfolgreich erstellt.'')) \<and>
         ((\<exists>p m. fst (backup w cfg) = Inr (True, p, m)) \<longleftrightarrow>
          (\<exists>out err. os_run w cmd env = Exited 0 out err))"
  by (auto simp: backup_run [OF assms] split: proc_outcome.splits)

theorem backup_success_result_witness:
  "(\<exists>fp cmd env.
      fst (prepare (example_world {} False (Exited 0 [] []))
             (example_config (PStr ''secret'') (PStr ''appdb''))) = Inr (fp, cmd, env) \<and>
      os_run (example_world {} False (Exited 0 [] [])) cmd env = Exited 0 [] []) \<and>
   fst (backup (example_world {} False (Exited 0 [] []))
          (example_config (PStr ''secret'') (PStr ''appdb''))) =
     Inr (True, Some ''/srv/app/backups/backup_mysql_appdb_20240307_090542.sql'',
          ''Backup erfolgreich erstellt.'')"
  using backup_success_result [OF example_prepare, of "Exited 0 [] []" "PStr ''secret''" "[]" "[]"]
  by (simp add: example_os_run example_prepare)

section \<open>The command and the file it writes\<close>

text \<open>
  C5, as stated, fails: the password can be a substring of an argument, because
  another field holds the same text.  With the user \<open>root\<close> and the password
  \<open>root\<close> the argument \<open>-uroot\<close> has the password as a substring.
\<close>

theorem backup_password_in_argument_counterexample:
  "map fst (run_calls (snd (backup (example_world {} False (Exited 0 [] []))
                            (example_config (PStr ''root'') (PStr ''appdb''))))) =
     [[PStr ''mariadb-dump'', PStr ''-hdb.local'', PStr ''-P3306'', PStr ''-uroot'',
       PStr ''--result-file=/srv/app/backups/backup_mysql_appdb_20240307_090542.sql'',
       PStr ''--single-transaction'', PStr ''appdb'']] \<and>
   py_in_str ''root'' ''-uroot''"
  by (simp add: backup_run_calls example_prepare) (simp add: example_world_def)

text \<open>
  C5, amended.  For every configuration the argument list does not depend on the
  password: two runs that differ only in the password give \<open>subprocess.run\<close> the
  same command, and the environments they give it agree on every variable other
  than \<open>MYSQL_PWD\<close>.  The password reaches the process through \<open>MYSQL_PWD\<close>,
  which holds it in the environment given with the command.
\<close>

theorem backup_command_independent_of_password:
  "map fst (run_calls (snd (backup w (cfg(''db_password'' \<mapsto> p1))))) =
   map fst (run_calls (snd (backup w (cfg(''db_password'' \<mapsto> p2))))) \<and>
   map (\<lambda>(c, e). e(''MYSQL_PWD'' := None)) (run_calls (snd (backup w (cfg(''db_password'' \<mapsto> p1))))) =
   map (\<lambda>(c, e). e(''MYSQL_PWD'' := None)) (run_calls (snd (backup w (cfg(''db_password'' \<mapsto> p2))))) \<and>
   (\<forall>c e. (c, e) \<in> set (drop (length (run_calls w))
                         (run_calls (snd (backup w (cfg(''db_password'' \<mapsto> p1)))))) \<longrightarrow>
          e ''MYSQL_PWD'' = Some p1)"
proof (cases "fst (prepare w (cfg(''db_password'' \<mapsto> p2)))")
  case (Inl e)
  with prepare_password [of w cfg p1 p2]
  have "fst (prepare w (cfg(''db_password'' \<mapsto> p1))) = Inl e" by simp
  with Inl show ?thesis by (simp add: backup_run_calls)
next
  case (Inr x)
  obtain fp cmd env where x: "x = (fp, cmd, env)" by (cases x)
  with Inr prepare_password [of w cfg p1 p2]
  have "fst (prepare w (cfg(''db_password'' \<mapsto> p1))) = Inr (fp, cmd, env(''MYSQL_PWD'' \<mapsto> p1))"
    by simp
  with Inr x show ?thesis by (simp add: backup_run_calls)
qed

theorem backup_command_independent_of_password_witness:
  "(([PStr ''mariadb-dump'', PStr ''-hdb.local'', PStr ''-P3306'', PStr ''-uroot'',
      PStr ''--result-file=/srv/app/backups/backup_mysql_appdb_20240307_090542.sql'',
      PStr ''--single-transaction'', PStr ''appdb''],
     [''PATH'' \<mapsto> PStr ''/usr/bin'', ''MYSQL_PWD'' \<mapsto> PStr ''s3cret''])
    \<in> set (drop (length (run_calls (example_world {} False (Exited 0 [] []))))
         (run_calls (snd (backup (example_world {} False (Exited 0 [] []))
            ((example_config PNone (PStr ''appdb''))(''db_password'' \<mapsto> PStr ''s3cret''))))))) \<and>
   [''PATH'' \<mapsto> PStr ''/usr/bin'', ''MYSQL_PWD'' \<mapsto> PStr ''s3cret''] ''MYSQL_PWD'' =
     Some (PStr ''s3cret'')"
proof -
  have "run_calls (snd (backup (example_world {} False (Exited 0 [] []))
            ((example_config PNone (PStr ''appdb''))(''db_password'' \<mapsto> PStr ''s3cret'')))) =
        [([PStr ''mariadb-dump'', PStr ''-hdb.local'', PStr ''-P3306'', PStr ''-uroot'',
      PStr ''--result-file=/srv/app/backups/backup_mysql_appdb_20240307_090542.sql'',
      PStr ''--single-transaction'', PStr ''appdb''],
     [''PATH'' \<mapsto> PStr ''/usr/bin'', ''MYSQL_PWD'' \<mapsto> PStr ''s3cret''])]"
    by (simp add: example_config_password backup_run_calls example_prepare)
      (simp add: example_world_def)
  moreover have "run_calls (example_world {} False (Exited 0 [] [])) = []"
    by (simp add: example_world_def)
  ultimately show ?thesis
    using backup_command_independent_of_password
      [of "example_world {} False (Exited 0 [] [])" "example_config PNone (PStr ''appdb'')"
        "PStr ''s3cret''" "PStr ''other''"]
    by simp
qed

text \<open>
  C6.  For every successful backup, the path returned is the backup directory
  joined with \<open>backup_mysql_\<close>, the target database, \<open>_\<close>, the timestamp and
  \<open>.sql\<close>: the directory, a \<open>/\<close> unless the directory ends with one, and the file
  name; so it starts with the backup directory.  The timestamp is the local
  time in the pattern \<open>YYYYMMDD_HHMMSS\<close>: the four digits of the year, the two of
  the month and the two of the day, one underscore, then the two digits each of
  the hour, the minute and the second; so it is eight digits, one underscore and
  six digits.  The clock shows a date and time with a year of four digits, from
  1000 to 9999, as \<open>datetime.now()\<close> does.
\<close>

theorem backup_filepath:
  assumes "fst (backup w cfg) = Inr (True, Some fp, m)" and "valid_datetime (clock w)"
  shows "\<exists>db_name target_db a b.
           cfg ''db_name'' = Some db_name \<and> target_db_of db_name = Inr target_db \<and>
           fp = path_join (BACKUP_DIR w)
                  (''backup_mysql_'' @ py_format target_db @ ''_'' @ get_timestamp w @ ''.sql'') \<and>
           fp = BACKUP_DIR w @
                  (if BACKUP_DIR w = [] \<or> last (BACKUP_DIR w) = CHR ''/'' then [] else ''/'') @
                  ''backup_mysql_'' @ py_format target_db @ ''_'' @ get_timestamp w @ ''.sql'' \<and>
           take (length (BACKUP_DIR w)) fp = BACKUP_DIR w \<and>
           a = fixed_digits 4 (year (clock w)) @ fixed_digits 2 (month (clock w)) @
               fixed_digits 2 (day (clock w)) \<and>
           b = fixed_digits 2 (hour (clock w)) @ fixed_digits 2 (minute (clock w)) @
               fixed_digits 2 (second (clock w)) \<and>
           get_timestamp w = a @ ''_'' @ b \<and> length a = 8 \<and> length b = 6 \<and>
           (\<forall>c \<in> set (a @ b). is_digit c)"
proof -
  obtain x where x: "fst (prepare w cfg) = Inr x"
    using assms(1) backup_raise [of w cfg] by (cases "fst (prepare w cfg)") auto
  obtain fp' cmd env where p: "fst (prepare w cfg) = Inr (fp', cmd, env)"
    using x by (cases x) auto
  from backup_run [OF p] assms(1) have "fp' = fp"
    by (auto split: proc_outcome.splits if_splits)
  with p obtain db_name target_db where d:
    "cfg ''db_name'' = Some db_name" "target_db_of db_name = Inr target_db"
    "fp = path_join (BACKUP_DIR w) (dump_filename target_db (get_timestamp w))"
    unfolding prepare_Inr by blast
  from d(3) have t: "take (length (BACKUP_DIR w)) fp = BACKUP_DIR w"
    by (simp add: path_join_prefix startswith_dump_filename)
  from d(3) have j: "fp = BACKUP_DIR w @
                  (if BACKUP_DIR w = [] \<or> last (BACKUP_DIR w) = CHR ''/'' then [] else ''/'') @
                  dump_filename target_db (get_timestamp w)"
    by (simp only: path_join_no_root [OF startswith_dump_filename])
  let ?a = "fixed_digits 4 (year (clock w)) @ fixed_digits 2 (month (clock w)) @
            fixed_digits 2 (day (clock w))"
  let ?b = "fixed_digits 2 (hour (clock w)) @ fixed_digits 2 (minute (clock w)) @
            fixed_digits 2 (second (clock w))"
  have ts: "get_timestamp w = ?a @ ''_'' @ ?b"
    unfolding get_timestamp_def strftime_fixed_digits [OF assms(2)] by simp
  have "length ?a = 8" "length ?b = 6"
    by (simp_all add: length_fixed_digits)
  moreover have "\<forall>c \<in> set (?a @ ?b). is_digit c"
    by (auto dest: fixed_digits_is_digit)
  ultimately show ?thesis
    using d t j ts unfolding dump_filename_def by blast
qed

theorem backup_filepath_witness:
  "fst (backup (example_world {} False (Exited 0 [] []))
          (example_config (PStr ''secret'') (PStr ''appdb''))) =
     Inr (True, Some ''/srv/app/backups/backup_mysql_appdb_20240307_090542.sql'',
          ''Backup erfolgreich erstellt.'') \<and>
   valid_datetime (clock (example_world {} False (Exited 0 [] []))) \<and>
   get_timestamp (example_world {} False (Exited 0 [] [])) = ''20240307_090542'' \<and>
   (\<exists>db_name target_db a b.
      example_config (PStr ''secret'') (PStr ''appdb'') ''db_name'' = Some db_name \<and>
      target_db_of db_name = Inr target_db \<and>
      ''/srv/app/backups/backup_mysql_appdb_20240307_090542.sql'' =
        path_join (BACKUP_DIR (example_world {} False (Exited 0 [] [])))
          (''backup_mysql_'' @ py_format target_db @ ''_'' @
           get_timestamp (example_world {} False (Exited 0 [] [])) @ ''.sql'') \<and>
      ''/srv/app/backups/backup_mysql_appdb_20240307_090542.sql'' =
        BACKUP_DIR (example_world {} False (Exited 0 [] [])) @
        (if BACKUP_DIR (example_world {} False (Exited 0 [] [])) = [] \<or>
            last (BACKUP_DIR (example_world {} False (Exited 0 [] []))) = CHR ''/''
         then [] else ''/'') @
        ''backup_mysql_'' @ py_format target_db @ ''_'' @
        get_timestamp (example_world {} False (Exited 0 [] [])) @ ''.sql'' \<and>
      take (length (BACKUP_DIR (example_world {} False (Exited 0 [] []))))
        ''/srv/app/backups/backup_mysql_appdb_20240307_090542.sql'' =
        BACKUP_DIR (example_world {} False (Exited 0 [] [])) \<and>
      a = fixed_digits 4 (year (clock (example_world {} False (Exited 0 [] [])))) @
          fixed_digits 2 (month (clock (example_world {} False (Exited 0 [] [])))) @
          fixed_digits 2 (day (clock (example_world {} False (Exited 0 [] [])))) \<and>
      b = fixed_digits 2 (hour (clock (example_world {} False (Exited 0 [] [])))) @
          fixed_digits 2 (minute (clock (example_world {} False (Exited 0 [] [])))) @
          fixed_digits 2 (second (clock (example_world {} False (Exited 0 [] [])))) \<and>
      get_timestamp (example_world {} False (Exited 0 [] [])) = a @ ''_'' @ b \<and>
      length a = 8 \<and> length b = 6 \<and> (\<forall>c \<in> set (a @ b). is_digit c))"
proof -
  have r: "fst (backup (example_world {} False (Exited 0 [] []))
          (example_config (PStr ''secret'') (PStr ''appdb''))) =
     Inr (True, Some ''/srv/app/backups/backup_mysql_appdb_20240307_090542.sql'',
          ''Backup erfolgreich erstellt.'')"
    by (simp add: backup_run [OF example_prepare] example_os_run)
  have v: "valid_datetime (clock (example_world {} False (Exited 0 [] [])))"
    by (simp add: valid_datetime_def example_world_def example_clock_def)
  have g: "get_timestamp (example_world {} False (Exited 0 [] [])) = ''20240307_090542''"
    by (rule example_timestamp)
  from backup_filepath [OF r v] r v g show ?thesis
    by (intro conjI) assumption+
qed



section \<open>Exceptions that leave \<open>backup\<close>\<close>




section \<open>The environment of the caller\<close>

text \<open>
  C10.  A call to \<open>backup\<close> leaves \<open>os.environ\<close> as it was; the environment
  given to the dump command is a copy of it with \<open>MYSQL_PWD\<close> set to the password
  of the configuration.  So the password is not in the environment of the caller
  after the call, unless it was there before.
\<close>

theorem backup_environment:
  "environ (snd (backup w cfg)) = environ w \<and>
   (\<forall>c e. (c, e) \<in> set (drop (length (run_calls w)) (run_calls (snd (backup w cfg)))) \<longrightarrow>
      (\<exists>password. cfg ''db_password'' = Some password \<and>
         e = (map_option PStr \<circ> environ w)(''MYSQL_PWD'' \<mapsto> password)))"
proof (cases "fst (prepare w cfg)")
  case (Inl e)
  then show ?thesis by (simp add: backup_environ backup_run_calls)
next
  case (Inr x)
  obtain fp cmd env where x: "x = (fp, cmd, env)" by (cases x)
  with Inr have p: "fst (prepare w cfg) = Inr (fp, cmd, env)" by simp
  then obtain password where "cfg ''db_password'' = Some password"
    "env = build_env w password"
    unfolding prepare_Inr by blast
  with p show ?thesis
    by (simp add: backup_environ backup_run_calls build_env_def)
qed

theorem backup_environment_witness:
  "environ (snd (backup (example_world {} False (Exited 0 [] []))
                   (example_config (PStr ''secret'') (PStr ''appdb'')))) =
     [''PATH'' \<mapsto> ''/usr/bin''] \<and>
   ([PStr ''mariadb-dump'', PStr ''-hdb.local'', PStr ''-P3306'', PStr ''-uroot'',
     PStr ''--result-file=/srv/app/backups/backup_mysql_appdb_20240307_090542.sql'',
     PStr ''--single-transaction'', PStr ''appdb''],
    [''PATH'' \<mapsto> PStr ''/usr/bin'', ''MYSQL_PWD'' \<mapsto> PStr ''secret''])
   \<in> set (drop (length (run_calls (example_world {} False (Exited 0 [] []))))
        (run_calls (snd (backup (example_world {} False (Exited 0 [] []))
                         (example_config (PStr ''secret'') (PStr ''appdb'')))))) \<and>
   example_config (PStr ''secret'') (PStr ''appdb'') ''db_password'' = Some (PStr ''secret'') \<and>
   [''PATH'' \<mapsto> PStr ''/usr/bin'', ''MYSQL_PWD'' \<mapsto> PStr ''secret''] =
     (map_option PStr \<circ> environ (example_world {} False (Exited 0 [] [])))
       (''MYSQL_PWD'' \<mapsto> PStr ''secret'')"
proof -
  let ?w = "example_world {} False (Exited 0 [] [])"
  let ?c = "example_config (PStr ''secret'') (PStr ''appdb'')"
  let ?cmd = "[PStr ''mariadb-dump'', PStr ''-hdb.local'', PStr ''-P3306'', PStr ''-uroot'',
     PStr ''--result-file=/srv/app/backups/backup_mysql_appdb_20240307_090542.sql'',
     PStr ''--single-transaction'', PStr ''appdb'']"
  let ?env = "[''PATH'' \<mapsto> PStr ''/usr/bin'', ''MYSQL_PWD'' \<mapsto> PStr ''secret'']"
  have l: "run_calls ?w = []" "environ ?w = [''PATH'' \<mapsto> ''/usr/bin'']"
    by (simp_all add: example_world_def)
  have "run_calls (snd (backup ?w ?c)) = run_calls ?w @ [(?cmd, ?env)]"
    by (simp add: backup_run_calls example_prepare)
  then have s: "(?cmd, ?env) \<in> set (drop (length (run_calls ?w)) (run_calls (snd (backup ?w ?c))))"
    by simp
  have c: "?c ''db_password'' = Some (PStr ''secret'')"
    by (simp add: example_config_def)
  from backup_environment [of ?w ?c] have "environ (snd (backup ?w ?c)) = environ ?w"
    by (rule conjunct1)
  then have e: "environ (snd (backup ?w ?c)) = [''PATH'' \<mapsto> ''/usr/bin'']"
    by (simp only: l)
  from backup_environment [of ?w ?c] s
  have "\<exists>password. ?c ''db_password'' = Some password \<and>
          ?env = (map_option PStr \<circ> environ ?w)(''MYSQL_PWD'' \<mapsto> password)"
    by blast
  with c have m: "?env = (map_option PStr \<circ> environ ?w)(''MYSQL_PWD'' \<mapsto> PStr ''secret'')"
    by auto
  show ?thesis
    by (intro conjI; fact e s c m)
qed

end
